theory Spec2Isabelle
  imports Main
begin

section \<open>Railway reservation system: the store\<close>

text \<open>
  The program keeps its state in an SQLite file: one table \<open>trains\<close> and, per train, a
  table \<open>seats_<train_number>\<close>. A table is modelled as the list of its rows, in rowid
  order; the set of seat tables as a map from the case-folded table name (SQLite resolves
  table names case-insensitively) to rows (\<open>None\<close>: no such table). Nullable columns
  are options, \<open>booked\<close> is the INTEGER column the code compares with 0 and 1. Python strings are lists of characters, a character standing for a code
  point below 256.
\<close>

record train_row =
  train_number :: string
  train_name :: string
  departure_date :: string
  starting_destination :: string
  ending_destination :: string

record seat_row =
  seat_number :: int
  seat_type :: string
  booked :: int
  passenger_name :: "string option"
  passenger_age :: "int option"
  passenger_gender :: "string option"

record db =
  trains :: "train_row list"
  seat_tables :: "string \<rightharpoonup> seat_row list"

text \<open>
  What an operation reports. The first seven are the messages the data functions hand to
  \<open>st.error\<close> before returning; the last two are exceptions that leave the function
  uncaught (\<open>ValueError\<close> from \<open>sanitize_train_number\<close>, \<open>sqlite3.OperationalError\<close>
  for a statement on a table that does not exist).
\<close>

datatype error =
    FieldsRequired
  | UnsafeTrainNumber
  | DuplicateTrain
  | TrainNotFound
  | DateMismatch
  | NoAvailableSeat
  | SeatNotFound
  | ValueError
  | OperationalError

text \<open>The spec's \<open>ValidationError\<close> covers the two messages of input validation.\<close>

definition ValidationError :: "error \<Rightarrow> bool" where
  "ValidationError e = (e = FieldsRequired \<or> e = UnsafeTrainNumber)"

text \<open>
  The \<open>departure_date\<close> argument: a \<open>datetime.date\<close> (year, month, day) or any other
  value, of which the text \<open>str\<close> gives is kept.
\<close>

datatype date_arg = DateObj nat nat nat | DateStr string

text \<open>The store of a new database file after \<open>init_db\<close>.\<close>

definition init_db :: db where
  "init_db = \<lparr>trains = [], seat_tables = Map.empty\<rparr>"

section \<open>Helpers\<close>

text \<open>The character class \<open>[A-Za-z0-9_]\<close> and \<open>re.fullmatch\<close> of its \<open>+\<close> closure.\<close>

definition ident_char :: "char \<Rightarrow> bool" where
  "ident_char c =
     (let k = (of_char c :: nat)
      in (65 \<le> k \<and> k \<le> 90) \<or> (97 \<le> k \<and> k \<le> 122) \<or> (48 \<le> k \<and> k \<le> 57) \<or> k = 95)"

definition fullmatch_ident :: "string \<Rightarrow> bool" where
  "fullmatch_ident s = (s \<noteq> [] \<and> list_all ident_char s)"

definition sanitize_train_number :: "string \<Rightarrow> error + string" where
  "sanitize_train_number tn = (if \<not> fullmatch_ident tn then Inl ValueError else Inr tn)"

definition seat_table_name :: "string \<Rightarrow> error + string" where
  "seat_table_name tn =
     (case sanitize_train_number tn of Inl e \<Rightarrow> Inl e | Inr t \<Rightarrow> Inr (''seats_'' @ t))"

text \<open>
  SQLite resolves a table name without regard to the case of its ASCII letters:
  \<open>seats_t1\<close> and \<open>seats_T1\<close> name one table. The key under which the store
  holds a table is its name with the letters A to Z folded to lower case.
\<close>

definition ascii_lower :: "char \<Rightarrow> char" where
  "ascii_lower c =
     (case map_of (zip ''ABCDEFGHIJKLMNOPQRSTUVWXYZ'' ''abcdefghijklmnopqrstuvwxyz'') c of
        None \<Rightarrow> c
      | Some l \<Rightarrow> l)"

definition table_key :: "string \<Rightarrow> string" where
  "table_key name = map ascii_lower name"

definition categorize_seat :: "int \<Rightarrow> string" where
  "categorize_seat n =
     (let m = n mod 10
      in if m \<in> set [0, 4, 5, 9] then ''Window''
         else if m \<in> set [2, 3, 6, 7] then ''Aisle''
         else ''Middle'')"

text \<open>\<open>str.strip()\<close>: leading and trailing white space removed.\<close>

definition isspace :: "char \<Rightarrow> bool" where
  "isspace c =
     (let k = (of_char c :: nat)
      in (9 \<le> k \<and> k \<le> 13) \<or> (28 \<le> k \<and> k \<le> 32) \<or> k = 133 \<or> k = 160)"

definition strip :: "string \<Rightarrow> string" where
  "strip s = rev (dropWhile isspace (rev (dropWhile isspace s)))"

text \<open>\<open>date.isoformat()\<close>: \<open>YYYY-MM-DD\<close>, each number zero padded.\<close>

fun zero_pad :: "nat \<Rightarrow> nat \<Rightarrow> string" where
  "zero_pad 0 n = []"
| "zero_pad (Suc w) n = zero_pad w (n div 10) @ [''0123456789'' ! (n mod 10)]"

definition isoformat :: "nat \<Rightarrow> nat \<Rightarrow> nat \<Rightarrow> string" where
  "isoformat y m d = zero_pad 4 y @ ''-'' @ zero_pad 2 m @ ''-'' @ zero_pad 2 d"

text \<open>The normalisation both \<open>add_train\<close> and \<open>delete_train\<close> apply to the date.\<close>

fun departure_date_str :: "date_arg \<Rightarrow> string" where
  "departure_date_str (DateObj y m d) = isoformat y m d"
| "departure_date_str (DateStr s) = s"

section \<open>Queries\<close>

text \<open>\<open>SELECT ... FROM trains WHERE train_number = ?\<close>, \<open>fetchone()\<close>.\<close>

definition select_train :: "train_row list \<Rightarrow> string \<Rightarrow> train_row option" where
  "select_train ts tn = find (\<lambda>r. train_number r = tn) ts"

text \<open>\<open>SELECT ... FROM <table> WHERE seat_number = ?\<close>, \<open>fetchone()\<close>.\<close>

definition select_seat :: "seat_row list \<Rightarrow> int \<Rightarrow> seat_row option" where
  "select_seat rows n = find (\<lambda>r. seat_number r = n) rows"

text \<open>
  \<open>SELECT seat_number FROM <table> WHERE booked = 0 AND seat_type = ?
  ORDER BY seat_number ASC LIMIT 1\<close>, \<open>fetchone()\<close>.
\<close>

definition select_first_available :: "seat_row list \<Rightarrow> string \<Rightarrow> int option" where
  "select_first_available rows st =
     (case sort_key seat_number (filter (\<lambda>r. booked r = 0 \<and> seat_type r = st) rows) of
        [] \<Rightarrow> None
      | r # _ \<Rightarrow> Some (seat_number r))"

text \<open>The rows \<open>ensure_seat_table\<close> inserts: \<open>range(1, total_seats + 1)\<close>.\<close>

definition seed_row :: "int \<Rightarrow> seat_row" where
  "seed_row i =
     \<lparr>seat_number = i, seat_type = categorize_seat i, booked = 0,
      passenger_name = None, passenger_age = None, passenger_gender = None\<rparr>"

definition seed_rows :: "int \<Rightarrow> seat_row list" where
  "seed_rows total_seats = map seed_row [1..total_seats]"

section \<open>Operations\<close>

text \<open>
  \<open>ensure_seat_table\<close>: the table name first (it may raise), then
  \<open>CREATE TABLE IF NOT EXISTS\<close>, then the rows when \<open>COUNT(1)\<close> is 0.
\<close>

definition ensure_seat_table :: "db \<Rightarrow> string \<Rightarrow> int \<Rightarrow> error + db" where
  "ensure_seat_table d tn total_seats =
     (case seat_table_name tn of
        Inl e \<Rightarrow> Inl e
      | Inr table \<Rightarrow>
          (let d0 = (case seat_tables d (table_key table) of
                       None \<Rightarrow> d\<lparr>seat_tables := (seat_tables d)(table_key table \<mapsto> [])\<rparr>
                     | Some _ \<Rightarrow> d)
           in case seat_tables d0 (table_key table) of
                None \<Rightarrow> Inl OperationalError
              | Some rows \<Rightarrow>
                  (let count = int (length rows)
                   in if count = 0
                      then Inr (d0\<lparr>seat_tables := (seat_tables d0)
                                  (table_key table \<mapsto> rows @ seed_rows total_seats)\<rparr>)
                      else Inr d0)))"

text \<open>
  \<open>add_train\<close>. The result pairs what is reported with the store left behind; the insert
  into \<open>trains\<close> is committed before the seat table is made.
\<close>

definition add_train ::
  "db \<Rightarrow> string \<Rightarrow> string \<Rightarrow> date_arg \<Rightarrow> string \<Rightarrow> string \<Rightarrow> (error + unit) \<times> db" where
  "add_train d tn nm dt start end =
     (if tn = [] \<or> nm = [] \<or> start = [] \<or> end = [] then (Inl FieldsRequired, d)
      else case sanitize_train_number tn of
        Inl _ \<Rightarrow> (Inl UnsafeTrainNumber, d)
      | Inr _ \<Rightarrow>
          (case select_train (trains d) tn of
             Some _ \<Rightarrow> (Inl DuplicateTrain, d)
           | None \<Rightarrow>
               (let d1 = d\<lparr>trains := trains d @
                            [\<lparr>train_number = tn, train_name = nm,
                              departure_date = departure_date_str dt,
                              starting_destination = start, ending_destination = end\<rparr>]\<rparr>
                in case ensure_seat_table d1 tn 50 of
                     Inl e \<Rightarrow> (Inl e, d1)
                   | Inr d2 \<Rightarrow> (Inr (), d2))))"

text \<open>
  \<open>delete_train\<close>: \<open>DROP TABLE IF EXISTS\<close> of the seat table, then the delete of every
  row of \<open>trains\<close> with that number. A \<open>ValueError\<close> of the table name is caught and
  reported.
\<close>

definition delete_train :: "db \<Rightarrow> string \<Rightarrow> date_arg \<Rightarrow> (error + unit) \<times> db" where
  "delete_train d tn dt =
     (case select_train (trains d) tn of
        None \<Rightarrow> (Inl TrainNotFound, d)
      | Some row \<Rightarrow>
          (if departure_date row \<noteq> departure_date_str dt then (Inl DateMismatch, d)
           else (case seat_table_name tn of
                   Inl e \<Rightarrow> (Inl UnsafeTrainNumber, d)
                 | Inr table \<Rightarrow>
                     (Inr (), d\<lparr>seat_tables := (seat_tables d)(table_key table := None),
                                trains := filter (\<lambda>r. train_number r \<noteq> tn) (trains d)\<rparr>))))"

text \<open>
  \<open>allocate_next_available_seat\<close>: the table is ensured first, which may write, so
  the store is returned with the answer.
\<close>

definition allocate_next_available_seat ::
  "db \<Rightarrow> string \<Rightarrow> string \<Rightarrow> (error + int option) \<times> db" where
  "allocate_next_available_seat d tn st =
     (case ensure_seat_table d tn 50 of
        Inl e \<Rightarrow> (Inl e, d)
      | Inr d1 \<Rightarrow>
          (case seat_table_name tn of
             Inl e \<Rightarrow> (Inl e, d1)
           | Inr table \<Rightarrow>
               (case seat_tables d1 (table_key table) of
                  None \<Rightarrow> (Inl OperationalError, d1)
                | Some rows \<Rightarrow> (Inr (select_first_available rows st), d1))))"

text \<open>The \<open>UPDATE ... WHERE seat_number = ?\<close> of \<open>book_ticket\<close>, on the rows.\<close>

definition book_rows ::
  "seat_row list \<Rightarrow> int \<Rightarrow> string \<Rightarrow> int \<Rightarrow> string \<Rightarrow> seat_row list" where
  "book_rows rows n nm age gender =
     map (\<lambda>r. if seat_number r = n
              then r\<lparr>booked := 1, passenger_name := Some nm,
                     passenger_age := Some age, passenger_gender := Some gender\<rparr>
              else r) rows"

text \<open>
  \<open>book_ticket\<close>; \<open>not seat_number\<close> holds for \<open>None\<close> and for 0. On success the seat
  number of the success message is returned.
\<close>

definition book_ticket ::
  "db \<Rightarrow> string \<Rightarrow> string \<Rightarrow> int \<Rightarrow> string \<Rightarrow> string \<Rightarrow> (error + int) \<times> db" where
  "book_ticket d tn nm age gender st =
     (case select_train (trains d) tn of
        None \<Rightarrow> (Inl TrainNotFound, d)
      | Some _ \<Rightarrow>
          (case allocate_next_available_seat d tn st of
             (Inl e, d1) \<Rightarrow> (Inl e, d1)
           | (Inr sn, d1) \<Rightarrow>
               (case sn of
                  None \<Rightarrow> (Inl NoAvailableSeat, d1)
                | Some n \<Rightarrow>
                    (if n = 0 then (Inl NoAvailableSeat, d1)
                     else (case seat_table_name tn of
                             Inl e \<Rightarrow> (Inl e, d1)
                           | Inr table \<Rightarrow>
                               (case seat_tables d1 (table_key table) of
                                  None \<Rightarrow> (Inl OperationalError, d1)
                                | Some rows \<Rightarrow>
                                    (Inr n,
                                     d1\<lparr>seat_tables := (seat_tables d1)
                                          (table_key table \<mapsto> book_rows rows n (strip nm) age gender)\<rparr>)))))))"

text \<open>The \<open>UPDATE ... WHERE seat_number = ?\<close> of \<open>cancel_tickets\<close>, on the rows.\<close>

definition cancel_rows :: "seat_row list \<Rightarrow> int \<Rightarrow> seat_row list" where
  "cancel_rows rows n =
     map (\<lambda>r. if seat_number r = n
              then r\<lparr>booked := 0, passenger_name := None,
                     passenger_age := None, passenger_gender := None\<rparr>
              else r) rows"

text \<open>\<open>cancel_tickets\<close>; it does not ensure the seat table.\<close>

definition cancel_tickets :: "db \<Rightarrow> string \<Rightarrow> int \<Rightarrow> (error + unit) \<times> db" where
  "cancel_tickets d tn n =
     (case select_train (trains d) tn of
        None \<Rightarrow> (Inl TrainNotFound, d)
      | Some _ \<Rightarrow>
          (case seat_table_name tn of
             Inl e \<Rightarrow> (Inl e, d)
           | Inr table \<Rightarrow>
               (case seat_tables d (table_key table) of
                  None \<Rightarrow> (Inl OperationalError, d)
                | Some rows \<Rightarrow>
                    (case select_seat rows n of
                       None \<Rightarrow> (Inl SeatNotFound, d)
                     | Some _ \<Rightarrow>
                         (Inr (), d\<lparr>seat_tables := (seat_tables d)
                                     (table_key table \<mapsto> cancel_rows rows n)\<rparr>)))))"

section \<open>Notions for the statements\<close>

text \<open>
  The inventory of a train: the rows of its seat table, none when the table does not
  exist.
\<close>

definition seat_rows :: "db \<Rightarrow> string \<Rightarrow> seat_row list" where
  "seat_rows d tn = (case seat_tables d (table_key (''seats_'' @ tn)) of None \<Rightarrow> [] | Some rs \<Rightarrow> rs)"

text \<open>An unbooked seat of a category, as the allocation query selects it.\<close>

definition available :: "string \<Rightarrow> seat_row \<Rightarrow> bool" where
  "available st r = (booked r = 0 \<and> seat_type r = st)"

text \<open>
  The store of the spec's running example: a new database after
  \<open>add_train("T1", "Express", date(2025, 1, 1), "A", "B")\<close>.
\<close>

definition example_db :: db where
  "example_db = snd (add_train init_db ''T1'' ''Express'' (DateObj 2025 1 1) ''A'' ''B'')"

text \<open>
  The categories of an inventory are those the seeding writes. \<open>ensure_seat_table\<close>
  establishes this and no statement of the program writes \<open>seat_type\<close> afterwards.
\<close>

definition seeded_categories :: "db \<Rightarrow> string \<Rightarrow> bool" where
  "seeded_categories d tn =
     list_all (\<lambda>s. seat_type s \<in> set [''Window'', ''Aisle'', ''Middle'']) (seat_rows d tn)"

text \<open>The example store with every Middle seat booked for one passenger.\<close>

definition sold_out_db :: db where
  "sold_out_db =
     example_db\<lparr>seat_tables := [table_key ''seats_T1'' \<mapsto>
       map (\<lambda>s. if seat_type s = ''Middle''
                then s\<lparr>booked := 1, passenger_name := Some ''Pat'',
                       passenger_age := Some 30, passenger_gender := Some ''Other''\<rparr>
                else s) (seed_rows 50)]\<rparr>"

text \<open>The example store after Alice has booked a Window seat.\<close>

definition booked_db :: db where
  "booked_db = snd (book_ticket example_db ''T1'' ''  Alice '' 30 ''Female'' ''Window'')"

text \<open>
  A seat is fully booked (flag 1, the three passenger fields not NULL) or fully unbooked
  (flag 0, the three passenger fields NULL); a store is consistent when every row of
  every seat table is.
\<close>

definition seat_consistent :: "seat_row \<Rightarrow> bool" where
  "seat_consistent s =
     ((booked s = 1 \<and> passenger_name s \<noteq> None \<and> passenger_age s \<noteq> None \<and>
       passenger_gender s \<noteq> None) \<or>
      (booked s = 0 \<and> passenger_name s = None \<and> passenger_age s = None \<and>
       passenger_gender s = None))"

definition db_consistent :: "db \<Rightarrow> bool" where
  "db_consistent d = (\<forall>t rows. seat_tables d t = Some rows \<longrightarrow> list_all seat_consistent rows)"

text \<open>
  The store after a second train, \<open>t1\<close>, is added to the store in which Alice holds
  seat 4 of train \<open>T1\<close>.
\<close>

definition alias_db :: db where
  "alias_db = snd (add_train booked_db ''t1'' ''Local'' (DateObj 2025 1 1) ''A'' ''B'')"

text \<open>
  The stores the program can produce from a new database, by its five operations and by
  View Seats (which ensures the seat table of whatever train number is entered). In such
  a store every seat table either holds the untouched seeding or is the table some train
  in \<open>trains\<close> resolves to.
\<close>

definition owned :: "db \<Rightarrow> bool" where
  "owned d =
     (\<forall>k rows. seat_tables d k = Some rows \<longrightarrow>
        rows = seed_rows 50 \<or>
        (\<exists>r\<in>set (trains d). table_key (''seats_'' @ train_number r) = k))"

inductive reachable :: "db \<Rightarrow> bool" where
  new: "reachable init_db"
| added: "reachable d \<Longrightarrow> reachable (snd (add_train d tn nm dt start end))"
| deleted: "reachable d \<Longrightarrow> reachable (snd (delete_train d tn dt))"
| booked: "reachable d \<Longrightarrow> reachable (snd (book_ticket d tn nm age gender st))"
| cancelled: "reachable d \<Longrightarrow> reachable (snd (cancel_tickets d tn n))"
| viewed: "reachable d \<Longrightarrow> ensure_seat_table d tn 50 = Inr d' \<Longrightarrow> reachable d'"

section \<open>Queries and helpers: basic facts\<close>

lemma sort_key_Nil_iff: "sort_key f xs = [] \<longleftrightarrow> xs = []"
proof
  assume "sort_key f xs = []"
  then have "set (sort_key f xs) = {}" by simp
  then show "xs = []" by (simp only: set_sort set_empty)
next
  assume "xs = []"
  then show "sort_key f xs = []" by simp
qed

lemma sfa_None:
  "select_first_available rows st = None \<longleftrightarrow> (\<forall>r\<in>set rows. \<not> available st r)"
proof (cases "sort_key seat_number (filter (\<lambda>r. booked r = 0 \<and> seat_type r = st) rows)")
  case Nil
  then have "filter (\<lambda>r. booked r = 0 \<and> seat_type r = st) rows = []"
    by (simp only: sort_key_Nil_iff)
  then have "\<forall>r\<in>set rows. \<not> available st r"
    by (simp add: filter_empty_conv available_def)
  then show ?thesis
    using Nil by (simp add: select_first_available_def)
next
  case (Cons r rs)
  then have "filter (\<lambda>r. booked r = 0 \<and> seat_type r = st) rows \<noteq> []"
    using sort_key_Nil_iff [of seat_number "filter (\<lambda>r. booked r = 0 \<and> seat_type r = st) rows"]
    by simp
  then have "\<exists>r\<in>set rows. available st r"
    by (simp add: filter_empty_conv available_def)
  then show ?thesis
    using Cons by (simp add: select_first_available_def)
qed

lemma sfa_Some:
  assumes "select_first_available rows st = Some n"
  shows "(\<exists>r\<in>set rows. available st r \<and> seat_number r = n) \<and>
         (\<forall>r\<in>set rows. available st r \<longrightarrow> n \<le> seat_number r)"
proof -
  let ?P = "\<lambda>r. booked r = 0 \<and> seat_type r = st"
  from assms obtain r rs where
    eq: "sort_key seat_number (filter ?P rows) = r # rs" and n: "n = seat_number r"
    by (auto simp: select_first_available_def split: list.splits)
  have mem: "set (r # rs) = {x \<in> set rows. ?P x}"
    using set_sort [of seat_number "filter ?P rows"] eq by simp
  have "sorted (map seat_number (r # rs))"
    using sorted_sort_key [of seat_number "filter ?P rows"] eq by simp
  then have le: "\<forall>x\<in>set (r # rs). seat_number r \<le> seat_number x"
    by auto
  have "r \<in> set rows \<and> ?P r" using mem by auto
  moreover have "\<forall>x\<in>set rows. ?P x \<longrightarrow> n \<le> seat_number x"
    using le mem n by blast
  ultimately show ?thesis
    unfolding available_def using n by blast
qed

lemma seat_table_name_safe:
  "fullmatch_ident tn \<Longrightarrow> seat_table_name tn = Inr (''seats_'' @ tn)"
  by (simp add: seat_table_name_def sanitize_train_number_def)

lemma seat_table_name_unsafe:
  "\<not> fullmatch_ident tn \<Longrightarrow> seat_table_name tn = Inl ValueError"
  by (simp add: seat_table_name_def sanitize_train_number_def)

lemma ensure_safe:
  "fullmatch_ident tn \<Longrightarrow>
   ensure_seat_table d tn k =
     Inr (d\<lparr>seat_tables := (seat_tables d)
            (table_key (''seats_'' @ tn) \<mapsto> (if seat_rows d tn = [] then seed_rows k else seat_rows d tn))\<rparr>)"
  by (auto simp: ensure_seat_table_def seat_table_name_safe seat_rows_def Let_def map_upd_triv
      split: option.splits)

lemma ensure_unsafe:
  "\<not> fullmatch_ident tn \<Longrightarrow> ensure_seat_table d tn k = Inl ValueError"
  by (simp add: ensure_seat_table_def seat_table_name_unsafe)

lemma ensure_nonempty:
  "fullmatch_ident tn \<Longrightarrow> seat_rows d tn \<noteq> [] \<Longrightarrow> ensure_seat_table d tn k = Inr d"
  by (auto simp: ensure_safe seat_rows_def map_upd_triv split: option.splits)

lemma ensure_Inr:
  assumes "ensure_seat_table d tn k = Inr d1"
  shows "fullmatch_ident tn"
    and "d1 = d\<lparr>seat_tables := (seat_tables d)
            (table_key (''seats_'' @ tn) \<mapsto> (if seat_rows d tn = [] then seed_rows k else seat_rows d tn))\<rparr>"
  using assms ensure_safe [of tn d k] ensure_unsafe [of tn d k] by (cases "fullmatch_ident tn"; simp)+

lemma allocate_safe:
  "fullmatch_ident tn \<Longrightarrow> ensure_seat_table d tn 50 = Inr d1 \<Longrightarrow>
   allocate_next_available_seat d tn st = (Inr (select_first_available (seat_rows d1 tn) st), d1)"
  by (auto simp: allocate_next_available_seat_def seat_table_name_safe ensure_safe seat_rows_def)

section \<open>The running example, evaluated\<close>

lemma T1_safe: "fullmatch_ident ''T1''"
  by (simp add: fullmatch_ident_def ident_char_def)

lemma iso_example: "isoformat 2025 (Suc 0) (Suc 0) = ''2025-01-01''"
  by code_simp

lemma example_db_eq:
  "example_db =
     \<lparr>trains = [\<lparr>train_number = ''T1'', train_name = ''Express'',
                 departure_date = ''2025-01-01'', starting_destination = ''A'',
                 ending_destination = ''B''\<rparr>],
      seat_tables = [table_key ''seats_T1'' \<mapsto> seed_rows 50]\<rparr>"
  by (simp add: example_db_def add_train_def init_db_def sanitize_train_number_def T1_safe
      select_train_def ensure_safe seat_rows_def iso_example)

lemma example_rows: "seat_rows example_db ''T1'' = seed_rows 50"
  by (simp add: example_db_eq seat_rows_def)

lemma example_known: "select_train (trains example_db) ''T1'' \<noteq> None"
  by (simp add: example_db_eq select_train_def)

lemma seed_first_window: "select_first_available (seed_rows 50) ''Window'' = Some 4"
  by code_simp

lemma seed_nonempty: "seed_rows 50 \<noteq> []"
  by code_simp

section \<open>Seat classification\<close>

text \<open>
  Claim C2. For every seat number \<open>n\<close>, with \<open>n mod 10\<close> in \<open>{0,4,5,9}\<close> the
  category is Window, in \<open>{2,3,6,7}\<close> Aisle, in \<open>{1,8}\<close> Middle; the three sets
  cover every residue, so the category is determined by \<open>n mod 10\<close> alone.
\<close>

theorem categorize_seat_rule:
  "(n mod 10 \<in> {0, 4, 5, 9} \<longrightarrow> categorize_seat n = ''Window'') \<and>
   (n mod 10 \<in> {2, 3, 6, 7} \<longrightarrow> categorize_seat n = ''Aisle'') \<and>
   (n mod 10 \<in> {1, 8} \<longrightarrow> categorize_seat n = ''Middle'') \<and>
   n mod 10 \<in> {0, 4, 5, 9} \<union> {2, 3, 6, 7} \<union> {1, 8}"
proof -
  have "0 \<le> n mod 10" "n mod 10 < 10" by simp_all
  then have "n mod 10 \<in> {0, 1, 2, 3, 4, 5, 6, 7, 8, 9}" by (simp; arith)
  then show ?thesis by (auto simp: categorize_seat_def)
qed

theorem categorize_seat_rule_witness:
  "categorize_seat 14 = ''Window'' \<and> categorize_seat 12 = ''Aisle'' \<and>
   categorize_seat 11 = ''Middle''"
  using categorize_seat_rule [of 14] categorize_seat_rule [of 12] categorize_seat_rule [of 11]
  by simp

section \<open>Allocation\<close>

text \<open>
  Claim C1. For a train whose number can name a seat table, and every category,
  \<open>allocate_next_available_seat\<close> answers on the inventory as \<open>ensure_seat_table\<close>
  leaves it (the store itself once the inventory has rows): \<open>None\<close> exactly when no
  unbooked seat of the category exists, otherwise the number of such a seat that is
  less than or equal to the number of every other one.
\<close>

theorem allocate_lowest:
  assumes "fullmatch_ident tn"
  shows "\<exists>d1 r. allocate_next_available_seat d tn st = (Inr r, d1) \<and>
           ensure_seat_table d tn 50 = Inr d1 \<and>
           (seat_rows d tn \<noteq> [] \<longrightarrow> d1 = d) \<and>
           (r = None \<longleftrightarrow> (\<forall>s\<in>set (seat_rows d1 tn). \<not> available st s)) \<and>
           (\<forall>n. r = Some n \<longrightarrow>
              (\<exists>s\<in>set (seat_rows d1 tn). available st s \<and> seat_number s = n) \<and>
              (\<forall>s\<in>set (seat_rows d1 tn). available st s \<longrightarrow> n \<le> seat_number s))"
proof -
  obtain d1 where e: "ensure_seat_table d tn 50 = Inr d1"
    using assms by (simp add: ensure_safe)
  have a: "allocate_next_available_seat d tn st =
             (Inr (select_first_available (seat_rows d1 tn) st), d1)"
    using assms e by (rule allocate_safe)
  have id: "seat_rows d tn \<noteq> [] \<longrightarrow> d1 = d"
    using assms e ensure_nonempty [of tn d 50] by auto
  let ?r = "select_first_available (seat_rows d1 tn) st"
  have none: "?r = None \<longleftrightarrow> (\<forall>s\<in>set (seat_rows d1 tn). \<not> available st s)"
    by (rule sfa_None)
  have some: "\<forall>n. ?r = Some n \<longrightarrow>
              (\<exists>s\<in>set (seat_rows d1 tn). available st s \<and> seat_number s = n) \<and>
              (\<forall>s\<in>set (seat_rows d1 tn). available st s \<longrightarrow> n \<le> seat_number s)"
    using sfa_Some [of "seat_rows d1 tn" st] by blast
  from a e id none some show ?thesis
    by (intro exI [of _ d1] exI [of _ ?r] conjI)
qed

theorem allocate_lowest_witness:
  "fullmatch_ident ''T1'' \<and>
   allocate_next_available_seat example_db ''T1'' ''Window'' = (Inr (Some 4), example_db)"
  using allocate_lowest [OF T1_safe, of example_db "''Window''"]
  by (auto simp: T1_safe example_rows seed_nonempty seed_first_window allocate_safe ensure_nonempty)

section \<open>Booking\<close>

lemma ensure_table:
  assumes "ensure_seat_table d tn k = Inr d1"
  shows "seat_tables d1 (table_key (''seats_'' @ tn)) = Some (seat_rows d1 tn)"
  using ensure_Inr(2) [OF assms] by (simp add: seat_rows_def)

lemma ensure_frame:
  assumes "ensure_seat_table d tn k = Inr d1"
  shows "trains d1 = trains d"
    and "t \<noteq> table_key (''seats_'' @ tn) \<Longrightarrow> seat_tables d1 t = seat_tables d t"
    and "seat_rows d1 tn = (if seat_rows d tn = [] then seed_rows k else seat_rows d tn)"
  using ensure_Inr(2) [OF assms] by (simp_all add: seat_rows_def)

lemma book_ticket_unknown:
  "select_train (trains d) tn = None \<Longrightarrow>
   book_ticket d tn nm age gender st = (Inl TrainNotFound, d)"
  by (simp add: book_ticket_def)

lemma book_ticket_unsafe:
  "select_train (trains d) tn \<noteq> None \<Longrightarrow> \<not> fullmatch_ident tn \<Longrightarrow>
   book_ticket d tn nm age gender st = (Inl ValueError, d)"
  by (auto simp: book_ticket_def allocate_next_available_seat_def ensure_unsafe)

lemma book_ticket_known:
  assumes known: "select_train (trains d) tn \<noteq> None"
    and e: "ensure_seat_table d tn 50 = Inr d1"
  shows "book_ticket d tn nm age gender st =
           (case select_first_available (seat_rows d1 tn) st of
              None \<Rightarrow> (Inl NoAvailableSeat, d1)
            | Some n \<Rightarrow>
                if n = 0 then (Inl NoAvailableSeat, d1)
                else (Inr n, d1\<lparr>seat_tables := (seat_tables d1)
                       (table_key (''seats_'' @ tn) \<mapsto> book_rows (seat_rows d1 tn) n (strip nm) age gender)\<rparr>))"
proof -
  have safe: "fullmatch_ident tn" using e by (rule ensure_Inr(1))
  have a: "allocate_next_available_seat d tn st =
             (Inr (select_first_available (seat_rows d1 tn) st), d1)"
    using safe e by (rule allocate_safe)
  obtain row where k: "select_train (trains d) tn = Some row" using known by auto
  show ?thesis
    using ensure_table [OF e]
    by (simp add: book_ticket_def k a seat_table_name_safe [OF safe] split: option.splits)
qed

text \<open>
  What \<open>strip\<close> returns: the argument without a prefix and a suffix of white space,
  itself neither starting nor ending with white space.
\<close>

lemma strip_sub:
  "\<exists>a b. nm = a @ strip nm @ b \<and> list_all isspace a \<and> list_all isspace b"
proof -
  let ?t = "dropWhile isspace nm"
  let ?a = "takeWhile isspace nm"
  let ?b = "rev (takeWhile isspace (rev ?t))"
  have 1: "nm = ?a @ ?t" by simp
  have "rev (dropWhile isspace (rev ?t)) @ ?b =
        rev (takeWhile isspace (rev ?t) @ dropWhile isspace (rev ?t))"
    by (simp only: rev_append)
  also have "\<dots> = rev (rev ?t)" by (simp only: takeWhile_dropWhile_id)
  also have "\<dots> = ?t" by simp
  finally have 2: "?t = strip nm @ ?b" by (simp only: strip_def)
  have a: "list_all isspace ?a"
    by (simp add: list_all_iff) (meson set_takeWhileD)
  have b: "list_all isspace ?b"
    by (simp add: list_all_iff) (meson set_takeWhileD)
  have "nm = ?a @ strip nm @ ?b" using 1 2 by metis
  then show ?thesis using a b by blast
qed

lemma last_dropWhile_same: "dropWhile P xs \<noteq> [] \<Longrightarrow> last (dropWhile P xs) = last xs"
  by (induction xs) (auto split: if_splits)

lemma strip_ends:
  assumes "strip nm \<noteq> []"
  shows "\<not> isspace (hd (strip nm)) \<and> \<not> isspace (last (strip nm))"
proof -
  let ?t = "dropWhile isspace nm"
  let ?u = "dropWhile isspace (rev ?t)"
  have s: "strip nm = rev ?u" by (simp add: strip_def)
  have u: "?u \<noteq> []" using assms s by simp
  have t: "?t \<noteq> []"
  proof
    assume e: "?t = []"
    have "?u = []" by (simp only: e rev.simps dropWhile.simps)
    with u show False by (rule notE)
  qed
  have l: "\<not> isspace (hd ?u)" using u by (rule hd_dropWhile)
  have "last ?u = last (rev ?t)" using u by (rule last_dropWhile_same)
  then have "last ?u = hd ?t" using t by (simp add: last_rev)
  moreover have "\<not> isspace (hd ?t)" using t by (rule hd_dropWhile)
  ultimately have h: "\<not> isspace (last ?u)" by simp
  show ?thesis using l h u by (simp add: s hd_rev last_rev)
qed

lemma book_rows_length: "length (book_rows rows n nm age gender) = length rows"
  by (simp add: book_rows_def)

lemma book_rows_nth:
  "i < length rows \<Longrightarrow>
   book_rows rows n nm age gender ! i =
     (if seat_number (rows ! i) = n
      then (rows ! i)\<lparr>booked := 1, passenger_name := Some nm,
                       passenger_age := Some age, passenger_gender := Some gender\<rparr>
      else rows ! i)"
  by (simp add: book_rows_def)

lemma book_rows_unique_change:
  assumes d: "distinct (map seat_number rows)"
    and s: "s \<in> set rows" "seat_number s = n" "booked s = 0"
  shows "\<exists>!i. i < length rows \<and> book_rows rows n nm age gender ! i \<noteq> rows ! i"
proof -
  from s(1) obtain i0 where i0: "i0 < length rows" "rows ! i0 = s"
    by (auto simp: in_set_conv_nth)
  have "booked (book_rows rows n nm age gender ! i0) = 1"
    using i0 s(2) by (simp add: book_rows_nth)
  then have ch: "book_rows rows n nm age gender ! i0 \<noteq> rows ! i0"
    using i0 s(3) by auto
  have uniq: "j = i0" if j: "j < length rows" "book_rows rows n nm age gender ! j \<noteq> rows ! j" for j
  proof -
    have "seat_number (rows ! j) = n"
      using j by (auto simp: book_rows_nth split: if_splits)
    then have "seat_number (rows ! j) = seat_number (rows ! i0)"
      using i0 s(2) by simp
    then show ?thesis
      using d j(1) i0(1) nth_eq_iff_index_eq [of "map seat_number rows" j i0] by simp
  qed
  show ?thesis
    using i0(1) ch uniq by blast
qed

text \<open>
  Booking does succeed when the train is known, an unbooked seat of the category exists
  and no seat is numbered 0 (seeded seats are numbered from 1).
\<close>

lemma book_ticket_succeeds:
  assumes known: "select_train (trains d) tn \<noteq> None"
    and safe: "fullmatch_ident tn"
    and avail: "\<exists>s\<in>set (seat_rows d tn). available st s"
    and pos: "\<forall>s\<in>set (seat_rows d tn). seat_number s \<noteq> 0"
  shows "\<exists>n d'. book_ticket d tn nm age gender st = (Inr n, d')"
proof -
  have ne: "seat_rows d tn \<noteq> []" using avail by auto
  have e: "ensure_seat_table d tn 50 = Inr d"
    using safe ne by (rule ensure_nonempty)
  obtain n where sel: "select_first_available (seat_rows d tn) st = Some n"
    using avail sfa_None [of "seat_rows d tn" st] by (cases "select_first_available (seat_rows d tn) st") auto
  have "n \<noteq> 0" using sfa_Some [OF sel] pos by blast
  then show ?thesis
    by (simp add: book_ticket_known [OF known e] sel)
qed

lemma strip_example: "strip ''  Alice '' = ''Alice''"
  by code_simp

lemma example_ensure: "ensure_seat_table example_db ''T1'' 50 = Inr example_db"
  using T1_safe by (rule ensure_nonempty) (simp add: example_rows seed_nonempty)

lemma example_book:
  "book_ticket example_db ''T1'' ''  Alice '' 30 ''Female'' ''Window'' =
     (Inr 4, example_db\<lparr>seat_tables := (seat_tables example_db)
        (table_key (''seats_'' @ ''T1'') \<mapsto> book_rows (seed_rows 50) 4 ''Alice'' 30 ''Female'')\<rparr>)"
  by (simp add: book_ticket_known [OF example_known example_ensure] example_rows
      seed_first_window strip_example)

lemma seed_nth: "seed_rows 50 ! 3 = seed_row 4" "seed_rows 50 ! 4 = seed_row 5"
  "length (seed_rows 50) = 50"
  by code_simp+

lemma seed_available: "\<exists>s\<in>set (seed_rows 50). available ''Window'' s"
  using sfa_None [of "seed_rows 50" "''Window''"] seed_first_window by auto

text \<open>The next Window booking would get seat 5.\<close>

lemma example_second_window:
  "select_first_available (book_rows (seed_rows 50) 4 ''Alice'' 30 ''Female'') ''Window'' = Some 5"
  by code_simp

text \<open>
  Claim C3. When the inventory of a train has an unbooked seat of the category and
  \<open>book_ticket\<close> succeeds with seat \<open>n\<close>, then \<open>n\<close> is the lowest number among the
  unbooked seats of that category; the inventory keeps its rows in place, every row
  numbered \<open>n\<close> is now booked with the stripped name, the age and the gender, and every
  other row is as it was. With seat numbers unique (the primary key), exactly one row
  differs. The train table is unchanged, and so is every seat table but the one the
  train's table name resolves to. The stored name is the given name without its leading
  and trailing white space.
\<close>

theorem book_ticket_marks_allocated:
  assumes avail: "\<exists>s\<in>set (seat_rows d tn). available st s"
    and ok: "book_ticket d tn nm age gender st = (Inr n, d')"
  shows "(\<exists>s\<in>set (seat_rows d tn). available st s \<and> seat_number s = n) \<and>
         (\<forall>s\<in>set (seat_rows d tn). available st s \<longrightarrow> n \<le> seat_number s) \<and>
         length (seat_rows d' tn) = length (seat_rows d tn) \<and>
         (\<forall>i<length (seat_rows d tn).
            seat_rows d' tn ! i =
              (if seat_number (seat_rows d tn ! i) = n
               then (seat_rows d tn ! i)\<lparr>booked := 1, passenger_name := Some (strip nm),
                      passenger_age := Some age, passenger_gender := Some gender\<rparr>
               else seat_rows d tn ! i)) \<and>
         (distinct (map seat_number (seat_rows d tn)) \<longrightarrow>
            (\<exists>!i. i < length (seat_rows d tn) \<and> seat_rows d' tn ! i \<noteq> seat_rows d tn ! i)) \<and>
         trains d' = trains d \<and>
         (\<forall>t. t \<noteq> table_key (''seats_'' @ tn) \<longrightarrow> seat_tables d' t = seat_tables d t) \<and>
         (\<exists>a b. nm = a @ strip nm @ b \<and> list_all isspace a \<and> list_all isspace b) \<and>
         (strip nm \<noteq> [] \<longrightarrow> \<not> isspace (hd (strip nm)) \<and> \<not> isspace (last (strip nm)))"
proof -
  have known: "select_train (trains d) tn \<noteq> None"
    using ok book_ticket_unknown [of d tn nm age gender st] by auto
  have safe: "fullmatch_ident tn"
    using ok known book_ticket_unsafe [of d tn nm age gender st] by auto
  have ne: "seat_rows d tn \<noteq> []" using avail by auto
  have e: "ensure_seat_table d tn 50 = Inr d"
    using safe ne by (rule ensure_nonempty)
  let ?rows = "seat_rows d tn"
  let ?new = "d\<lparr>seat_tables := (seat_tables d)
                 (table_key (''seats_'' @ tn) \<mapsto> book_rows ?rows n (strip nm) age gender)\<rparr>"
  have sel: "select_first_available ?rows st = Some n" and d': "d' = ?new"
    using ok book_ticket_known [OF known e, of nm age gender st]
    by (auto split: option.splits if_splits)
  have rows': "seat_rows d' tn = book_rows ?rows n (strip nm) age gender"
    by (simp add: d' seat_rows_def)
  note low = sfa_Some [OF sel]
  from low obtain s where s: "s \<in> set ?rows" "available st s" "seat_number s = n"
    by blast
  have uniq: "distinct (map seat_number ?rows) \<longrightarrow>
            (\<exists>!i. i < length ?rows \<and> seat_rows d' tn ! i \<noteq> ?rows ! i)"
    unfolding rows' using book_rows_unique_change [of ?rows s n] s
    by (simp add: available_def)
  have nth: "\<forall>i<length ?rows.
            seat_rows d' tn ! i =
              (if seat_number (?rows ! i) = n
               then (?rows ! i)\<lparr>booked := 1, passenger_name := Some (strip nm),
                      passenger_age := Some age, passenger_gender := Some gender\<rparr>
               else ?rows ! i)"
    unfolding rows' by (simp add: book_rows_nth)
  have len: "length (seat_rows d' tn) = length ?rows"
    unfolding rows' by (rule book_rows_length)
  have fr: "trains d' = trains d"
    "\<forall>t. t \<noteq> table_key (''seats_'' @ tn) \<longrightarrow> seat_tables d' t = seat_tables d t"
    by (simp_all add: d')
  have trim: "\<exists>a b. nm = a @ strip nm @ b \<and> list_all isspace a \<and> list_all isspace b"
    by (rule strip_sub)
  have ends: "strip nm \<noteq> [] \<longrightarrow> \<not> isspace (hd (strip nm)) \<and> \<not> isspace (last (strip nm))"
    using strip_ends by blast
  from low len nth uniq fr trim ends show ?thesis
    by (intro conjI) blast+
qed

theorem book_ticket_marks_allocated_witness:
  "(\<exists>s\<in>set (seat_rows example_db ''T1''). available ''Window'' s) \<and>
   fst (book_ticket example_db ''T1'' ''  Alice '' 30 ''Female'' ''Window'') = Inr 4 \<and>
   seat_rows (snd (book_ticket example_db ''T1'' ''  Alice '' 30 ''Female'' ''Window'')) ''T1'' ! 3 =
     \<lparr>seat_number = 4, seat_type = ''Window'', booked = 1, passenger_name = Some ''Alice'',
      passenger_age = Some 30, passenger_gender = Some ''Female''\<rparr> \<and>
   seat_rows (snd (book_ticket example_db ''T1'' ''  Alice '' 30 ''Female'' ''Window'')) ''T1'' ! 4 =
     \<lparr>seat_number = 5, seat_type = ''Window'', booked = 0, passenger_name = None,
      passenger_age = None, passenger_gender = None\<rparr>"
proof -
  let ?r = "book_ticket example_db ''T1'' ''  Alice '' 30 ''Female'' ''Window''"
  have av: "\<exists>s\<in>set (seat_rows example_db ''T1''). available ''Window'' s"
    using seed_available by (simp add: example_rows)
  have ok: "?r = (Inr 4, snd ?r)"
    by (simp add: example_book)
  have cat: "categorize_seat 4 = ''Window''" "categorize_seat 5 = ''Window''"
    by (simp_all add: categorize_seat_def)
  have nth: "\<forall>i<length (seat_rows example_db ''T1'').
            seat_rows (snd ?r) ''T1'' ! i =
              (if seat_number (seat_rows example_db ''T1'' ! i) = 4
               then (seat_rows example_db ''T1'' ! i)\<lparr>booked := 1,
                      passenger_name := Some (strip ''  Alice ''),
                      passenger_age := Some 30, passenger_gender := Some ''Female''\<rparr>
               else seat_rows example_db ''T1'' ! i)"
    using book_ticket_marks_allocated [OF av ok] by blast
  have r3: "seat_rows (snd ?r) ''T1'' ! 3 =
     \<lparr>seat_number = 4, seat_type = ''Window'', booked = 1, passenger_name = Some ''Alice'',
      passenger_age = Some 30, passenger_gender = Some ''Female''\<rparr>"
    using nth [rule_format, of 3]
    by (simp add: example_rows seed_nth seed_row_def cat strip_example)
  have r4: "seat_rows (snd ?r) ''T1'' ! 4 =
     \<lparr>seat_number = 5, seat_type = ''Window'', booked = 0, passenger_name = None,
      passenger_age = None, passenger_gender = None\<rparr>"
    using nth [rule_format, of 4]
    by (simp add: example_rows seed_nth seed_row_def cat)
  have f: "fst ?r = Inr 4"
    by (simp add: example_book)
  from av f r3 r4 show ?thesis
    by (intro conjI)
qed

lemma ensure_keeps_tables:
  assumes e: "ensure_seat_table d tn k = Inr d1"
    and t: "seat_tables d t = Some rows" "rows \<noteq> []"
  shows "seat_tables d1 t = Some rows"
proof (cases "t = table_key (''seats_'' @ tn)")
  case True
  then have "seat_rows d tn = rows" using t(1) by (simp add: seat_rows_def)
  then have "seat_rows d1 tn = rows" using ensure_frame(3) [OF e] t(2) by simp
  then show ?thesis using ensure_table [OF e] True by simp
next
  case False
  then show ?thesis using ensure_frame(2) [OF e] t(1) by simp
qed

lemma sold_out_rows:
  "seat_rows sold_out_db ''T1'' =
     map (\<lambda>s. if seat_type s = ''Middle''
                then s\<lparr>booked := 1, passenger_name := Some ''Pat'',
                       passenger_age := Some 30, passenger_gender := Some ''Other''\<rparr>
                else s) (seed_rows 50)"
  by (simp add: sold_out_db_def seat_rows_def)

lemma sold_out_known: "select_train (trains sold_out_db) ''T1'' \<noteq> None"
  using example_known by (simp add: sold_out_db_def)

lemma sold_out_nonempty: "seat_rows sold_out_db ''T1'' \<noteq> []"
  using seed_nonempty by (simp add: sold_out_rows)

lemma sold_out_ensure: "ensure_seat_table sold_out_db ''T1'' 50 = Inr sold_out_db"
  using T1_safe sold_out_nonempty by (rule ensure_nonempty)

lemma sold_out_none: "\<forall>s\<in>set (seat_rows sold_out_db ''T1''). \<not> available ''Middle'' s"
  by (auto simp: sold_out_rows available_def)

lemma example_unknown: "select_train (trains example_db) ''T9'' = None"
  by (simp add: example_db_eq select_train_def)

text \<open>
  Claim C4. \<open>book_ticket\<close> reports \<open>TrainNotFound\<close> for a train number with no row in
  \<open>trains\<close> and leaves the store as it is. For a known train whose inventory, as
  \<open>ensure_seat_table\<close> leaves it, has no unbooked seat of the category, it reports
  \<open>NoAvailableSeat\<close>; the train table is unchanged, every seat table that held rows is
  unchanged, and the store is unchanged altogether when the inventory already had rows.
\<close>

theorem book_ticket_failures:
  "(select_train (trains d) tn = None \<longrightarrow>
      book_ticket d tn nm age gender st = (Inl TrainNotFound, d)) \<and>
   (select_train (trains d) tn \<noteq> None \<and> ensure_seat_table d tn 50 = Inr d' \<and>
    (\<forall>s\<in>set (seat_rows d' tn). \<not> available st s) \<longrightarrow>
      book_ticket d tn nm age gender st = (Inl NoAvailableSeat, d') \<and>
      trains d' = trains d \<and>
      (\<forall>t rows. seat_tables d t = Some rows \<and> rows \<noteq> [] \<longrightarrow> seat_tables d' t = Some rows) \<and>
      (seat_rows d tn \<noteq> [] \<longrightarrow> d' = d))"
proof (intro conjI impI)
  assume "select_train (trains d) tn = None"
  then show "book_ticket d tn nm age gender st = (Inl TrainNotFound, d)"
    by (rule book_ticket_unknown)
next
  assume a: "select_train (trains d) tn \<noteq> None \<and> ensure_seat_table d tn 50 = Inr d' \<and>
    (\<forall>s\<in>set (seat_rows d' tn). \<not> available st s)"
  then have known: "select_train (trains d) tn \<noteq> None"
    and e: "ensure_seat_table d tn 50 = Inr d'"
    and none: "select_first_available (seat_rows d' tn) st = None"
    by (simp_all add: sfa_None)
  show "book_ticket d tn nm age gender st = (Inl NoAvailableSeat, d')"
    by (simp add: book_ticket_known [OF known e] none)
  show "trains d' = trains d"
    by (rule ensure_frame(1) [OF e])
  show "\<forall>t rows. seat_tables d t = Some rows \<and> rows \<noteq> [] \<longrightarrow> seat_tables d' t = Some rows"
    using ensure_keeps_tables [OF e] by blast
  show "d' = d" if "seat_rows d tn \<noteq> []"
    using that ensure_nonempty [OF ensure_Inr(1) [OF e], of d 50] e by auto
qed

theorem book_ticket_failures_witness:
  "select_train (trains example_db) ''T9'' = None \<and>
   book_ticket example_db ''T9'' ''Eve'' 20 ''Female'' ''Window'' = (Inl TrainNotFound, example_db) \<and>
   select_train (trains sold_out_db) ''T1'' \<noteq> None \<and>
   ensure_seat_table sold_out_db ''T1'' 50 = Inr sold_out_db \<and>
   book_ticket sold_out_db ''T1'' ''Eve'' 20 ''Female'' ''Middle'' = (Inl NoAvailableSeat, sold_out_db)"
  using book_ticket_failures [where d = example_db and tn = "''T9''" and nm = "''Eve''"
        and age = 20 and gender = "''Female''" and st = "''Window''"]
    book_ticket_failures [where d = sold_out_db and tn = "''T1''" and d' = sold_out_db
        and nm = "''Eve''" and age = 20 and gender = "''Female''" and st = "''Middle''"]
    example_unknown sold_out_known sold_out_ensure sold_out_none
  by blast

lemma categorize_seat_range: "categorize_seat n \<in> set [''Window'', ''Aisle'', ''Middle'']"
  by (simp add: categorize_seat_def Let_def)

lemma seed_rows_categories:
  "list_all (\<lambda>s. seat_type s \<in> set [''Window'', ''Aisle'', ''Middle'']) (seed_rows k)"
  using categorize_seat_range by (simp add: seed_rows_def seed_row_def list_all_iff)

lemma ensure_seeded_categories:
  assumes e: "ensure_seat_table d tn k = Inr d1" and s: "seeded_categories d tn"
  shows "seeded_categories d1 tn"
  using s seed_rows_categories [of k]
  by (simp add: seeded_categories_def ensure_frame(3) [OF e])

text \<open>Neither update writes \<open>seat_type\<close>.\<close>

lemma book_rows_types: "map seat_type (book_rows rows n nm age gender) = map seat_type rows"
  by (simp add: book_rows_def)

lemma cancel_rows_types: "map seat_type (cancel_rows rows n) = map seat_type rows"
  by (simp add: cancel_rows_def)

text \<open>
  Claim C10. For a known train whose number can name a seat table and whose inventory
  carries only the categories the seeding writes, \<open>book_ticket\<close> with any other
  category string reports \<open>NoAvailableSeat\<close>, not a validation error; the train table
  and every seat table that held rows are unchanged, and the store is unchanged
  altogether when the inventory already had rows.
\<close>

theorem book_ticket_unknown_category:
  assumes known: "select_train (trains d) tn \<noteq> None"
    and safe: "fullmatch_ident tn"
    and types: "seeded_categories d tn"
    and st: "st \<notin> {''Window'', ''Aisle'', ''Middle''}"
  shows "\<exists>d'. book_ticket d tn nm age gender st = (Inl NoAvailableSeat, d') \<and>
           ensure_seat_table d tn 50 = Inr d' \<and>
           trains d' = trains d \<and>
           (\<forall>t rows. seat_tables d t = Some rows \<and> rows \<noteq> [] \<longrightarrow> seat_tables d' t = Some rows) \<and>
           (seat_rows d tn \<noteq> [] \<longrightarrow> d' = d)"
proof -
  obtain d1 where e: "ensure_seat_table d tn 50 = Inr d1"
    using safe by (simp add: ensure_safe)
  have "seeded_categories d1 tn"
    using e types by (rule ensure_seeded_categories)
  then have "\<forall>s\<in>set (seat_rows d1 tn). seat_type s \<noteq> st"
    using st by (auto simp: seeded_categories_def list_all_iff)
  then have none: "\<forall>s\<in>set (seat_rows d1 tn). \<not> available st s"
    by (simp add: available_def)
  have b: "book_ticket d tn nm age gender st = (Inl NoAvailableSeat, d1)"
    using none by (simp add: book_ticket_known [OF known e] sfa_None [THEN iffD2])
  have t: "trains d1 = trains d"
    by (rule ensure_frame(1) [OF e])
  have k: "\<forall>t rows. seat_tables d t = Some rows \<and> rows \<noteq> [] \<longrightarrow> seat_tables d1 t = Some rows"
    using ensure_keeps_tables [OF e] by blast
  have i: "seat_rows d tn \<noteq> [] \<longrightarrow> d1 = d"
    using ensure_nonempty [OF safe, of d 50] e by auto
  from b e t k i show ?thesis
    by (intro exI [of _ d1] conjI)
qed

lemma example_seeded: "seeded_categories example_db ''T1''"
  using seed_rows_categories [of 50] by (simp add: seeded_categories_def example_rows)

theorem book_ticket_unknown_category_witness:
  "select_train (trains example_db) ''T1'' \<noteq> None \<and> fullmatch_ident ''T1'' \<and>
   seeded_categories example_db ''T1'' \<and> ''Sleeper'' \<notin> {''Window'', ''Aisle'', ''Middle''} \<and>
   book_ticket example_db ''T1'' ''Eve'' 20 ''Female'' ''Sleeper'' = (Inl NoAvailableSeat, example_db)"
proof -
  have st: "''Sleeper'' \<notin> {''Window'', ''Aisle'', ''Middle''}" by simp
  have ne: "seat_rows example_db ''T1'' \<noteq> []"
    by (simp add: example_rows seed_nonempty)
  from book_ticket_unknown_category [OF example_known T1_safe example_seeded st,
      of "''Eve''" 20 "''Female''"] ne
  have "book_ticket example_db ''T1'' ''Eve'' 20 ''Female'' ''Sleeper'' =
          (Inl NoAvailableSeat, example_db)"
    by auto
  with example_known T1_safe example_seeded st show ?thesis
    by (intro conjI)
qed

section \<open>Cancellation\<close>


lemma select_seat_cancel_other:
  "m \<noteq> n \<Longrightarrow> select_seat (cancel_rows rows n) m = select_seat rows m"
  by (induction rows) (auto simp: select_seat_def cancel_rows_def)





lemma booked_db_eq:
  "booked_db = example_db\<lparr>seat_tables := (seat_tables example_db)
        (table_key (''seats_'' @ ''T1'') \<mapsto> book_rows (seed_rows 50) 4 ''Alice'' 30 ''Female'')\<rparr>"
  by (simp add: booked_db_def example_book)

lemma booked_rows: "seat_rows booked_db ''T1'' = book_rows (seed_rows 50) 4 ''Alice'' 30 ''Female''"
  by (simp add: booked_db_eq seat_rows_def)





section \<open>The train registry\<close>

lemma select_train_append:
  "select_train (ts @ [r]) tn =
     (case select_train ts tn of
        Some x \<Rightarrow> Some x
      | None \<Rightarrow> if train_number r = tn then Some r else None)"
  by (induction ts) (simp_all add: select_train_def)

lemma select_train_filter_same:
  "select_train (filter (\<lambda>r. train_number r \<noteq> tn) ts) tn = None"
  by (induction ts) (simp_all add: select_train_def)

lemma select_train_filter_other:
  "t \<noteq> tn \<Longrightarrow> select_train (filter (\<lambda>r. train_number r \<noteq> tn) ts) t = select_train ts t"
  by (induction ts) (simp_all add: select_train_def)

lemma seed_rows_numbers: "map seat_number (seed_rows k) = [1..k]"
  by (simp add: seed_rows_def seed_row_def comp_def)

lemma seed_rows_fresh:
  assumes "s \<in> set (seed_rows k)"
  shows "booked s = 0 \<and> passenger_name s = None \<and> passenger_age s = None \<and>
         passenger_gender s = None \<and> seat_type s = categorize_seat (seat_number s)"
proof -
  from assms obtain i where "s = seed_row i"
    unfolding seed_rows_def by (auto simp only: set_map image_iff)
  then show ?thesis by (simp add: seed_row_def)
qed

lemma add_train_Inr:
  assumes ok: "add_train d tn nm dt start end = (Inr (), d')"
  shows "tn \<noteq> [] \<and> nm \<noteq> [] \<and> start \<noteq> [] \<and> end \<noteq> []"
    and "fullmatch_ident tn"
    and "select_train (trains d) tn = None"
    and "ensure_seat_table
           (d\<lparr>trains := trains d @
                [\<lparr>train_number = tn, train_name = nm, departure_date = departure_date_str dt,
                  starting_destination = start, ending_destination = end\<rparr>]\<rparr>) tn 50 = Inr d'"
proof -
  show f: "tn \<noteq> [] \<and> nm \<noteq> [] \<and> start \<noteq> [] \<and> end \<noteq> []"
    using ok by (auto simp: add_train_def)
  show s: "fullmatch_ident tn"
    using ok f by (cases "fullmatch_ident tn") (auto simp: add_train_def sanitize_train_number_def)
  show k: "select_train (trains d) tn = None"
    using ok f s
    by (cases "select_train (trains d) tn") (auto simp: add_train_def sanitize_train_number_def)
  show "ensure_seat_table
           (d\<lparr>trains := trains d @
                [\<lparr>train_number = tn, train_name = nm, departure_date = departure_date_str dt,
                  starting_destination = start, ending_destination = end\<rparr>]\<rparr>) tn 50 = Inr d'"
    using ok f s k
    by (auto simp: add_train_def sanitize_train_number_def Let_def split: sum.splits)
qed

text \<open>Adding does succeed for valid fields and a train number not yet in \<open>trains\<close>.\<close>

lemma add_train_succeeds:
  assumes "nm \<noteq> []" "start \<noteq> []" "end \<noteq> []" "fullmatch_ident tn"
    and "select_train (trains d) tn = None"
  shows "\<exists>d'. add_train d tn nm dt start end = (Inr (), d')"
proof -
  have "tn \<noteq> []" using assms(4) by (auto simp: fullmatch_ident_def)
  then show ?thesis
    using assms by (simp add: add_train_def sanitize_train_number_def ensure_safe Let_def)
qed

text \<open>
  When the seat table the train number resolves to holds no rows, a successful
  \<open>add_train\<close> leaves the inventory seeded: seats 1 to 50 in order, unbooked, the
  passenger fields NULL, each category as \<open>categorize_seat\<close> gives it.
\<close>

lemma add_train_seeds_empty_table:
  assumes ok: "add_train d tn nm dt start end = (Inr (), d')"
    and fresh: "seat_rows d tn = []"
  shows "map seat_number (seat_rows d' tn) = [1..50] \<and>
         length (seat_rows d' tn) = 50 \<and>
         (\<forall>s\<in>set (seat_rows d' tn).
            booked s = 0 \<and> passenger_name s = None \<and> passenger_age s = None \<and>
            passenger_gender s = None \<and> seat_type s = categorize_seat (seat_number s)) \<and>
         select_train (trains d) tn = None \<and>
         select_train (trains d') tn =
           Some \<lparr>train_number = tn, train_name = nm, departure_date = departure_date_str dt,
                 starting_destination = start, ending_destination = end\<rparr>"
proof -
  let ?row = "\<lparr>train_number = tn, train_name = nm, departure_date = departure_date_str dt,
                 starting_destination = start, ending_destination = end\<rparr>"
  let ?d1 = "d\<lparr>trains := trains d @ [?row]\<rparr>"
  note e = add_train_Inr(4) [OF ok]
  have k: "select_train (trains d) tn = None" by (rule add_train_Inr(3) [OF ok])
  have "seat_rows ?d1 tn = []" using fresh by (simp add: seat_rows_def)
  then have rows: "seat_rows d' tn = seed_rows 50"
    using ensure_frame(3) [OF e] by simp
  have tr: "trains d' = trains d @ [?row]"
    using ensure_frame(1) [OF e] by simp
  have n: "map seat_number (seat_rows d' tn) = [1..50]"
    by (simp only: rows seed_rows_numbers)
  have l: "length (seat_rows d' tn) = 50"
    by (simp only: rows seed_nth(3))
  have f: "\<forall>s\<in>set (seat_rows d' tn).
            booked s = 0 \<and> passenger_name s = None \<and> passenger_age s = None \<and>
            passenger_gender s = None \<and> seat_type s = categorize_seat (seat_number s)"
    unfolding rows using seed_rows_fresh by blast
  have t: "select_train (trains d') tn = Some ?row"
    by (simp add: tr select_train_append k)
  from n l f k t show ?thesis by (intro conjI)
qed

lemma add_train_seeds_example:
  "add_train init_db ''T1'' ''Express'' (DateObj 2025 1 1) ''A'' ''B'' = (Inr (), example_db) \<and>
   seat_rows init_db ''T1'' = [] \<and>
   map seat_number (seat_rows example_db ''T1'') = [1..50] \<and>
   length (seat_rows example_db ''T1'') = 50 \<and>
   seat_rows example_db ''T1'' ! 3 =
     \<lparr>seat_number = 4, seat_type = ''Window'', booked = 0, passenger_name = None,
      passenger_age = None, passenger_gender = None\<rparr>"
proof -
  have ok: "add_train init_db ''T1'' ''Express'' (DateObj 2025 1 1) ''A'' ''B'' = (Inr (), example_db)"
    by (simp add: example_db_def add_train_def init_db_def sanitize_train_number_def T1_safe
      select_train_def ensure_safe seat_rows_def)
  have fresh: "seat_rows init_db ''T1'' = []"
    by (simp add: init_db_def seat_rows_def)
  have r3: "seat_rows example_db ''T1'' ! 3 =
     \<lparr>seat_number = 4, seat_type = ''Window'', booked = 0, passenger_name = None,
      passenger_age = None, passenger_gender = None\<rparr>"
    by (simp add: example_rows seed_nth seed_row_def categorize_seat_def)
  from add_train_seeds_empty_table [OF ok fresh] ok fresh r3 show ?thesis
    by (intro conjI) blast+
qed

lemma example_train:
  "select_train (trains example_db) ''T1'' =
     Some \<lparr>train_number = ''T1'', train_name = ''Express'', departure_date = ''2025-01-01'',
           starting_destination = ''A'', ending_destination = ''B''\<rparr>"
  by (simp add: example_db_eq select_train_def)

lemma iso_wrong: "isoformat 2025 (Suc 0) 2 = ''2025-01-02''"
  by code_simp

text \<open>
  Claim C7. \<open>delete_train\<close> reports \<open>TrainNotFound\<close> when the train number has no
  row, and \<open>DateMismatch\<close> when the stored departure date differs from the normalised
  date supplied; in both cases the store is left as it is. With the matching date, for
  a train number that can name a seat table, it succeeds: afterwards the train has no
  row and no seat table, and the rows of other trains and every seat table but the one
  the train's table name resolves to are as before.
\<close>

theorem delete_train_cases:
  "(select_train (trains d) tn = None \<longrightarrow> delete_train d tn dt = (Inl TrainNotFound, d)) \<and>
   (\<forall>row. select_train (trains d) tn = Some row \<and> departure_date row \<noteq> departure_date_str dt \<longrightarrow>
      delete_train d tn dt = (Inl DateMismatch, d)) \<and>
   (\<forall>row. select_train (trains d) tn = Some row \<and> departure_date row = departure_date_str dt \<and>
      fullmatch_ident tn \<longrightarrow>
      (\<exists>d'. delete_train d tn dt = (Inr (), d') \<and>
            select_train (trains d') tn = None \<and>
            seat_tables d' (table_key (''seats_'' @ tn)) = None \<and>
            seat_rows d' tn = [] \<and>
            (\<forall>t. t \<noteq> tn \<longrightarrow> select_train (trains d') t = select_train (trains d) t) \<and>
            (\<forall>t. t \<noteq> table_key (''seats_'' @ tn) \<longrightarrow> seat_tables d' t = seat_tables d t)))"
proof (intro conjI allI impI)
  assume "select_train (trains d) tn = None"
  then show "delete_train d tn dt = (Inl TrainNotFound, d)"
    by (simp add: delete_train_def)
next
  fix row
  assume "select_train (trains d) tn = Some row \<and> departure_date row \<noteq> departure_date_str dt"
  then show "delete_train d tn dt = (Inl DateMismatch, d)"
    by (simp add: delete_train_def)
next
  fix row
  assume a: "select_train (trains d) tn = Some row \<and> departure_date row = departure_date_str dt \<and>
      fullmatch_ident tn"
  let ?d' = "d\<lparr>seat_tables := (seat_tables d)(table_key (''seats_'' @ tn) := None),
               trains := filter (\<lambda>r. train_number r \<noteq> tn) (trains d)\<rparr>"
  have del: "delete_train d tn dt = (Inr (), ?d')"
    using a by (simp add: delete_train_def seat_table_name_safe)
  have t: "select_train (trains ?d') tn = None"
    by (simp add: select_train_filter_same)
  have s: "seat_tables ?d' (table_key (''seats_'' @ tn)) = None" by simp
  have r: "seat_rows ?d' tn = []" by (simp add: seat_rows_def)
  have ot: "\<forall>t. t \<noteq> tn \<longrightarrow> select_train (trains ?d') t = select_train (trains d) t"
    by (simp add: select_train_filter_other)
  have os: "\<forall>t. t \<noteq> table_key (''seats_'' @ tn) \<longrightarrow> seat_tables ?d' t = seat_tables d t"
    by simp
  from del t s r ot os
  show "\<exists>d'. delete_train d tn dt = (Inr (), d') \<and>
            select_train (trains d') tn = None \<and>
            seat_tables d' (table_key (''seats_'' @ tn)) = None \<and>
            seat_rows d' tn = [] \<and>
            (\<forall>t. t \<noteq> tn \<longrightarrow> select_train (trains d') t = select_train (trains d) t) \<and>
            (\<forall>t. t \<noteq> table_key (''seats_'' @ tn) \<longrightarrow> seat_tables d' t = seat_tables d t)"
    by (intro exI [of _ ?d'] conjI)
qed

theorem delete_train_cases_witness:
  "delete_train example_db ''T9'' (DateObj 2025 1 1) = (Inl TrainNotFound, example_db) \<and>
   delete_train example_db ''T1'' (DateObj 2025 1 2) = (Inl DateMismatch, example_db) \<and>
   fst (delete_train example_db ''T1'' (DateObj 2025 1 1)) = Inr () \<and>
   select_train (trains (snd (delete_train example_db ''T1'' (DateObj 2025 1 1)))) ''T1'' = None \<and>
   seat_tables (snd (delete_train example_db ''T1'' (DateObj 2025 1 1))) (table_key ''seats_T1'') = None"
proof -
  note th1 = delete_train_cases [of example_db "''T9''" "DateObj 2025 1 1"]
  note th2 = delete_train_cases [of example_db "''T1''" "DateObj 2025 1 2"]
  note th3 = delete_train_cases [of example_db "''T1''" "DateObj 2025 1 1"]
  have a: "delete_train example_db ''T9'' (DateObj 2025 1 1) = (Inl TrainNotFound, example_db)"
    using th1 example_unknown by blast
  have b: "delete_train example_db ''T1'' (DateObj 2025 1 2) = (Inl DateMismatch, example_db)"
    using th2 example_train by (simp add: iso_wrong)
  have "\<exists>d'. delete_train example_db ''T1'' (DateObj 2025 1 1) = (Inr (), d') \<and>
            select_train (trains d') ''T1'' = None \<and>
            seat_tables d' (table_key (''seats_'' @ ''T1'')) = None"
    using th3 example_train T1_safe by (simp add: iso_example) blast
  then obtain d' where c: "delete_train example_db ''T1'' (DateObj 2025 1 1) = (Inr (), d')"
    and t: "select_train (trains d') ''T1'' = None"
    and s: "seat_tables d' (table_key (''seats_'' @ ''T1'')) = None"
    by blast
  have c1: "fst (delete_train example_db ''T1'' (DateObj 2025 1 1)) = Inr ()" using c by simp
  have c2: "select_train (trains (snd (delete_train example_db ''T1'' (DateObj 2025 1 1)))) ''T1'' = None"
    using c t by simp
  have c3: "seat_tables (snd (delete_train example_db ''T1'' (DateObj 2025 1 1))) (table_key ''seats_T1'') = None"
    using c s by simp
  from a b c1 c2 c3 show ?thesis by (intro conjI)
qed

lemma space_unsafe: "\<not> fullmatch_ident ''12 34''"
  by (simp add: fullmatch_ident_def ident_char_def)

text \<open>
  Claim C8, as the code has it. \<open>add_train\<close> reports a validation error when the
  train number, the name, the start or the end is empty, and when the train number does
  not match \<open>[A-Za-z0-9_]+\<close>; with these four non-empty and the number matching, no
  validation error is reported whatever the date is. The date is not checked for
  emptiness: with an empty date text the train is added.
\<close>

theorem add_train_validation:
  "(tn = [] \<or> nm = [] \<or> start = [] \<or> end = [] \<longrightarrow>
      add_train d tn nm dt start end = (Inl FieldsRequired, d)) \<and>
   (tn \<noteq> [] \<and> nm \<noteq> [] \<and> start \<noteq> [] \<and> end \<noteq> [] \<and> \<not> fullmatch_ident tn \<longrightarrow>
      add_train d tn nm dt start end = (Inl UnsafeTrainNumber, d)) \<and>
   ValidationError FieldsRequired \<and> ValidationError UnsafeTrainNumber \<and>
   (tn \<noteq> [] \<and> nm \<noteq> [] \<and> start \<noteq> [] \<and> end \<noteq> [] \<and> fullmatch_ident tn \<longrightarrow>
      (\<forall>e. fst (add_train d tn nm dt start end) = Inl e \<longrightarrow> \<not> ValidationError e))"
proof (intro conjI impI allI)
  assume "tn = [] \<or> nm = [] \<or> start = [] \<or> end = []"
  then show "add_train d tn nm dt start end = (Inl FieldsRequired, d)"
    by (simp add: add_train_def)
next
  assume "tn \<noteq> [] \<and> nm \<noteq> [] \<and> start \<noteq> [] \<and> end \<noteq> [] \<and> \<not> fullmatch_ident tn"
  then show "add_train d tn nm dt start end = (Inl UnsafeTrainNumber, d)"
    by (simp add: add_train_def sanitize_train_number_def)
next
  show "ValidationError FieldsRequired" by (simp add: ValidationError_def)
next
  show "ValidationError UnsafeTrainNumber" by (simp add: ValidationError_def)
next
  fix e
  assume a: "tn \<noteq> [] \<and> nm \<noteq> [] \<and> start \<noteq> [] \<and> end \<noteq> [] \<and> fullmatch_ident tn"
    and e: "fst (add_train d tn nm dt start end) = Inl e"
  have "e = DuplicateTrain"
    using a e
    by (cases "select_train (trains d) tn")
       (auto simp: add_train_def sanitize_train_number_def ensure_safe Let_def)
  then show "\<not> ValidationError e" by (simp add: ValidationError_def)
qed

theorem add_train_validation_witness:
  "add_train init_db ''T1'' [] (DateObj 2025 1 1) ''A'' ''B'' = (Inl FieldsRequired, init_db) \<and>
   add_train init_db ''12 34'' ''Express'' (DateObj 2025 1 1) ''A'' ''B'' =
     (Inl UnsafeTrainNumber, init_db) \<and>
   fst (add_train example_db ''T1'' ''Express'' (DateStr '''') ''A'' ''B'') = Inl DuplicateTrain \<and>
   \<not> ValidationError DuplicateTrain"
proof -
  note th1 = add_train_validation [of "''T1''" "[]" "''A''" "''B''" init_db "DateObj 2025 1 1"]
  note th2 = add_train_validation [of "''12 34''" "''Express''" "''A''" "''B''" init_db "DateObj 2025 1 1"]
  note th3 = add_train_validation [of "''T1''" "''Express''" "''A''" "''B''" example_db "DateStr ''''"]
  have a: "add_train init_db ''T1'' [] (DateObj 2025 1 1) ''A'' ''B'' = (Inl FieldsRequired, init_db)"
    using th1 by blast
  have b: "add_train init_db ''12 34'' ''Express'' (DateObj 2025 1 1) ''A'' ''B'' =
     (Inl UnsafeTrainNumber, init_db)"
    using th2 space_unsafe by simp
  have c: "fst (add_train example_db ''T1'' ''Express'' (DateStr '''') ''A'' ''B'') = Inl DuplicateTrain"
    using example_train by (simp add: add_train_def sanitize_train_number_def T1_safe)
  have d: "\<not> ValidationError DuplicateTrain"
    using th3 c T1_safe by simp
  from a b c d show ?thesis by (intro conjI)
qed

theorem add_train_empty_date_counterexample:
  "departure_date_str (DateStr '''') = '''' \<and>
   fst (add_train init_db ''T1'' ''Express'' (DateStr '''') ''A'' ''B'') = Inr ()"
  by (simp add: add_train_def init_db_def sanitize_train_number_def T1_safe
      select_train_def ensure_safe seat_rows_def)

section \<open>The seat invariant\<close>

lemma seed_rows_consistent: "list_all seat_consistent (seed_rows k)"
  using seed_rows_fresh by (auto simp: list_all_iff seat_consistent_def)

lemma book_rows_consistent:
  "list_all seat_consistent rows \<Longrightarrow> list_all seat_consistent (book_rows rows n nm age gender)"
  by (induction rows) (simp_all add: book_rows_def seat_consistent_def)

lemma cancel_rows_consistent:
  "list_all seat_consistent rows \<Longrightarrow> list_all seat_consistent (cancel_rows rows n)"
  by (induction rows) (simp_all add: cancel_rows_def seat_consistent_def)

lemma db_consistent_rows: "db_consistent d \<Longrightarrow> list_all seat_consistent (seat_rows d tn)"
  by (auto simp: db_consistent_def seat_rows_def split: option.splits)

lemma db_consistent_update:
  "db_consistent d \<Longrightarrow> list_all seat_consistent rows \<Longrightarrow>
   db_consistent (d\<lparr>seat_tables := (seat_tables d)(t \<mapsto> rows)\<rparr>)"
  by (simp add: db_consistent_def)

lemma db_consistent_trains: "db_consistent (d\<lparr>trains := ts\<rparr>) = db_consistent d"
  by (simp add: db_consistent_def)

lemma ensure_consistent:
  assumes c: "db_consistent d" and e: "ensure_seat_table d tn k = Inr d'"
  shows "db_consistent d'"
proof -
  have "list_all seat_consistent (if seat_rows d tn = [] then seed_rows k else seat_rows d tn)"
    using db_consistent_rows [OF c, of tn] seed_rows_consistent [of k] by simp
  then show ?thesis
    using ensure_Inr(2) [OF e] db_consistent_update [OF c] by simp
qed

lemma book_ticket_consistent:
  assumes c: "db_consistent d"
  shows "db_consistent (snd (book_ticket d tn nm age gender st))"
proof (cases "select_train (trains d) tn = None")
  case True
  then show ?thesis using c by (simp add: book_ticket_unknown)
next
  case known: False
  show ?thesis
  proof (cases "fullmatch_ident tn")
    case False
    then show ?thesis using c known by (simp add: book_ticket_unsafe)
  next
    case True
    then obtain d1 where e: "ensure_seat_table d tn 50 = Inr d1"
      by (simp add: ensure_safe)
    have c1: "db_consistent d1" using c e by (rule ensure_consistent)
    have "list_all seat_consistent (book_rows (seat_rows d1 tn) n (strip nm) age gender)" for n
      using db_consistent_rows [OF c1] by (rule book_rows_consistent)
    then have "db_consistent (d1\<lparr>seat_tables := (seat_tables d1)
                 (table_key (''seats_'' @ tn) \<mapsto> book_rows (seat_rows d1 tn) n (strip nm) age gender)\<rparr>)" for n
      using db_consistent_update [OF c1] by blast
    then show ?thesis
      using c1 by (simp add: book_ticket_known [OF known e] split: option.splits)
  qed
qed

lemma cancel_tickets_store:
  "snd (cancel_tickets d tn n) = d \<or>
   (\<exists>t rows. seat_tables d t = Some rows \<and>
      snd (cancel_tickets d tn n) = d\<lparr>seat_tables := (seat_tables d)(t \<mapsto> cancel_rows rows n)\<rparr>)"
  by (auto simp: cancel_tickets_def split: option.splits sum.splits)

lemma cancel_tickets_consistent:
  assumes c: "db_consistent d"
  shows "db_consistent (snd (cancel_tickets d tn n))"
proof -
  from cancel_tickets_store [of d tn n] show ?thesis
  proof
    assume "snd (cancel_tickets d tn n) = d"
    then show ?thesis using c by simp
  next
    assume "\<exists>t rows. seat_tables d t = Some rows \<and>
      snd (cancel_tickets d tn n) = d\<lparr>seat_tables := (seat_tables d)(t \<mapsto> cancel_rows rows n)\<rparr>"
    then obtain t rows where t: "seat_tables d t = Some rows"
      and s: "snd (cancel_tickets d tn n) = d\<lparr>seat_tables := (seat_tables d)(t \<mapsto> cancel_rows rows n)\<rparr>"
      by blast
    have "list_all seat_consistent rows" using c t by (auto simp: db_consistent_def)
    then have "list_all seat_consistent (cancel_rows rows n)" by (rule cancel_rows_consistent)
    then show ?thesis
      unfolding s using c by (rule db_consistent_update [rotated])
  qed
qed

lemma add_train_store:
  "snd (add_train d tn nm dt start end) = d \<or>
   snd (add_train d tn nm dt start end) =
     d\<lparr>trains := trains d @
          [\<lparr>train_number = tn, train_name = nm, departure_date = departure_date_str dt,
            starting_destination = start, ending_destination = end\<rparr>]\<rparr> \<or>
   ensure_seat_table
     (d\<lparr>trains := trains d @
          [\<lparr>train_number = tn, train_name = nm, departure_date = departure_date_str dt,
            starting_destination = start, ending_destination = end\<rparr>]\<rparr>) tn 50 =
     Inr (snd (add_train d tn nm dt start end))"
  by (auto simp: add_train_def Let_def split: option.splits sum.splits)

lemma add_train_consistent:
  assumes c: "db_consistent d"
  shows "db_consistent (snd (add_train d tn nm dt start end))"
  using add_train_store [of d tn nm dt start "end"] c
    ensure_consistent [of "d\<lparr>trains := trains d @
          [\<lparr>train_number = tn, train_name = nm, departure_date = departure_date_str dt,
            starting_destination = start, ending_destination = end\<rparr>]\<rparr>" tn 50
          "snd (add_train d tn nm dt start end)"]
  by (auto simp: db_consistent_trains)

text \<open>
  Claim C9. From a consistent store, seeding (\<open>ensure_seat_table\<close>, also as
  \<open>add_train\<close> calls it), \<open>book_ticket\<close> and \<open>cancel_tickets\<close> each leave a
  consistent store, whatever their arguments and whether they succeed or fail: no seat
  is left with the flag set and a passenger field NULL, or the flag clear and a
  passenger field set.
\<close>

theorem operations_preserve_consistency:
  assumes "db_consistent d"
  shows "(\<forall>d'. ensure_seat_table d tn k = Inr d' \<longrightarrow> db_consistent d') \<and>
         db_consistent (snd (add_train d tn nm dt start end)) \<and>
         db_consistent (snd (book_ticket d tn nm age gender st)) \<and>
         db_consistent (snd (cancel_tickets d tn n))"
  using assms ensure_consistent [of d tn k] add_train_consistent [of d tn nm dt start "end"]
    book_ticket_consistent [of d tn nm age gender st] cancel_tickets_consistent [of d tn n]
  by blast

lemma init_db_consistent: "db_consistent init_db"
  by (simp add: db_consistent_def init_db_def)

theorem operations_preserve_consistency_witness:
  "db_consistent init_db \<and> db_consistent example_db \<and> db_consistent booked_db \<and>
   db_consistent (snd (cancel_tickets booked_db ''T1'' 4)) \<and>
   seat_consistent \<lparr>seat_number = 4, seat_type = ''Window'', booked = 1,
     passenger_name = Some ''Alice'', passenger_age = Some 30,
     passenger_gender = Some ''Female''\<rparr> \<and>
   \<not> seat_consistent \<lparr>seat_number = 4, seat_type = ''Window'', booked = 1,
     passenger_name = None, passenger_age = Some 30, passenger_gender = Some ''Female''\<rparr>"
proof -
  have a: "db_consistent example_db"
    unfolding example_db_def
    using operations_preserve_consistency [OF init_db_consistent] by blast
  have b: "db_consistent booked_db"
    unfolding booked_db_def
    using operations_preserve_consistency [OF a] by blast
  have c: "db_consistent (snd (cancel_tickets booked_db ''T1'' 4))"
    using operations_preserve_consistency [OF b] by blast
  have s: "seat_consistent \<lparr>seat_number = 4, seat_type = ''Window'', booked = 1,
     passenger_name = Some ''Alice'', passenger_age = Some 30,
     passenger_gender = Some ''Female''\<rparr>"
    by (simp add: seat_consistent_def)
  have n: "\<not> seat_consistent \<lparr>seat_number = 4, seat_type = ''Window'', booked = 1,
     passenger_name = None, passenger_age = Some 30, passenger_gender = Some ''Female''\<rparr>"
    by (simp add: seat_consistent_def)
  from init_db_consistent a b c s n show ?thesis by (intro conjI)
qed

section \<open>Train numbers that differ only in letter case\<close>

text \<open>
  \<open>trains\<close> compares train numbers exactly, so \<open>t1\<close> may be added beside \<open>T1\<close>;
  their seat tables are one table.
\<close>

lemma key_alias: "table_key ''seats_t1'' = table_key ''seats_T1''"
  by (simp add: table_key_def ascii_lower_def)

lemma rows_alias: "seat_rows d ''t1'' = seat_rows d ''T1''"
  by (simp add: seat_rows_def key_alias)

lemma t1_safe: "fullmatch_ident ''t1''"
  by (simp add: fullmatch_ident_def ident_char_def)

lemma booked_t1_unknown: "select_train (trains booked_db) ''t1'' = None"
  by (simp add: booked_db_eq example_db_eq select_train_def)

lemma booked_nonempty: "seat_rows booked_db ''T1'' \<noteq> []"
  using seed_nonempty by (simp add: booked_rows book_rows_def)

lemma alias_add:
  "add_train booked_db ''t1'' ''Local'' (DateObj 2025 1 1) ''A'' ''B'' = (Inr (), alias_db)"
proof -
  obtain d' where "add_train booked_db ''t1'' ''Local'' (DateObj 2025 1 1) ''A'' ''B'' = (Inr (), d')"
    using add_train_succeeds [of "''Local''" "''A''" "''B''" "''t1''" booked_db "DateObj 2025 1 1"]
      t1_safe booked_t1_unknown by auto
  then show ?thesis by (simp add: alias_db_def)
qed

lemma alias_rows: "seat_rows alias_db ''t1'' = book_rows (seed_rows 50) 4 ''Alice'' 30 ''Female''"
proof -
  note e = add_train_Inr(4) [OF alias_add]
  have "seat_rows (booked_db\<lparr>trains := trains booked_db @
                [\<lparr>train_number = ''t1'', train_name = ''Local'',
                  departure_date = departure_date_str (DateObj 2025 1 1),
                  starting_destination = ''A'', ending_destination = ''B''\<rparr>]\<rparr>) ''t1'' =
        seat_rows booked_db ''T1''"
    by (simp add: seat_rows_def key_alias)
  then show ?thesis
    using ensure_frame(3) [OF e] booked_nonempty by (simp add: booked_rows)
qed

lemma alias_nth: "book_rows (seed_rows 50) 4 ''Alice'' 30 ''Female'' ! 3 =
     \<lparr>seat_number = 4, seat_type = ''Window'', booked = 1, passenger_name = Some ''Alice'',
      passenger_age = Some 30, passenger_gender = Some ''Female''\<rparr>"
  by code_simp

lemma alias_db_eq:
  "alias_db = booked_db\<lparr>trains := trains booked_db @
                [\<lparr>train_number = ''t1'', train_name = ''Local'',
                  departure_date = ''2025-01-01'',
                  starting_destination = ''A'', ending_destination = ''B''\<rparr>]\<rparr>"
proof -
  let ?d1 = "booked_db\<lparr>trains := trains booked_db @
                [\<lparr>train_number = ''t1'', train_name = ''Local'',
                  departure_date = departure_date_str (DateObj 2025 1 1),
                  starting_destination = ''A'', ending_destination = ''B''\<rparr>]\<rparr>"
  note e = add_train_Inr(4) [OF alias_add]
  have "seat_rows ?d1 ''t1'' = seat_rows booked_db ''T1''"
    by (simp add: seat_rows_def key_alias)
  then have "seat_rows ?d1 ''t1'' \<noteq> []" using booked_nonempty by simp
  then have "ensure_seat_table ?d1 ''t1'' 50 = Inr ?d1"
    using t1_safe ensure_nonempty by blast
  then have "alias_db = ?d1" using e by simp
  then show ?thesis by (simp add: iso_example)
qed

text \<open>
  Booking on \<open>t1\<close> allocates in the shared table: seat 5, since Alice holds seat 4.
\<close>

lemma alias_book:
  "fst (book_ticket alias_db ''t1'' ''Bob'' 40 ''Male'' ''Window'') = Inr 5"
proof -
  have k: "select_train (trains alias_db) ''t1'' \<noteq> None"
    by (simp add: alias_db_eq booked_db_eq example_db_eq select_train_def)
  have ne: "seat_rows alias_db ''t1'' \<noteq> []"
    using seed_nonempty by (simp add: alias_rows book_rows_def)
  have e: "ensure_seat_table alias_db ''t1'' 50 = Inr alias_db"
    using t1_safe ne by (rule ensure_nonempty)
  show ?thesis
    by (simp add: book_ticket_known [OF k e] alias_rows example_second_window)
qed

text \<open>
  Deleting \<open>t1\<close> drops the shared table: \<open>T1\<close> stays in \<open>trains\<close> without seats,
  and cancelling one of its seats fails on the missing table.
\<close>

lemma alias_delete:
  "fst (delete_train alias_db ''t1'' (DateObj 2025 1 1)) = Inr () \<and>
   select_train (trains (snd (delete_train alias_db ''t1'' (DateObj 2025 1 1)))) ''T1'' \<noteq> None \<and>
   seat_rows (snd (delete_train alias_db ''t1'' (DateObj 2025 1 1))) ''T1'' = [] \<and>
   fst (cancel_tickets (snd (delete_train alias_db ''t1'' (DateObj 2025 1 1))) ''T1'' 4) =
     Inl OperationalError"
proof -
  let ?d' = "alias_db\<lparr>seat_tables := (seat_tables alias_db)(table_key (''seats_'' @ ''t1'') := None),
               trains := filter (\<lambda>r. train_number r \<noteq> ''t1'') (trains alias_db)\<rparr>"
  have del: "delete_train alias_db ''t1'' (DateObj 2025 1 1) = (Inr (), ?d')"
    by (simp add: delete_train_def alias_db_eq booked_db_eq example_db_eq select_train_def
        seat_table_name_safe [OF t1_safe] iso_example)
  have k: "select_train (trains ?d') ''T1'' \<noteq> None"
    by (simp add: alias_db_eq booked_db_eq example_db_eq select_train_def)
  have t: "seat_tables ?d' (table_key (''seats_'' @ ''T1'')) = None"
    by (simp add: key_alias)
  have r: "seat_rows ?d' ''T1'' = []"
    using t by (simp add: seat_rows_def)
  obtain row where row: "select_train (trains ?d') ''T1'' = Some row" using k by auto
  have c: "fst (cancel_tickets ?d' ''T1'' 4) = Inl OperationalError"
    using t row by (simp add: cancel_tickets_def seat_table_name_safe [OF T1_safe])
  show ?thesis
    using k r c by (simp only: del fst_conv snd_conv simp_thms)
qed

text \<open>
  Claim C6. The claim fails for a train number that differs from a known one only in
  letter case: \<open>add_train\<close> of \<open>t1\<close> succeeds beside \<open>T1\<close>, the seat table it
  ensures is the one \<open>T1\<close> has, and the inventory of the new train has seat 4 booked
  by Alice.
\<close>

theorem add_train_alias_inherits_booking:
  "select_train (trains booked_db) ''t1'' = None \<and>
   fst (add_train booked_db ''t1'' ''Local'' (DateObj 2025 1 1) ''A'' ''B'') = Inr () \<and>
   seat_rows (snd (add_train booked_db ''t1'' ''Local'' (DateObj 2025 1 1) ''A'' ''B'')) ''t1'' ! 3 =
     \<lparr>seat_number = 4, seat_type = ''Window'', booked = 1, passenger_name = Some ''Alice'',
      passenger_age = Some 30, passenger_gender = Some ''Female''\<rparr>"
  by (simp only: booked_t1_unknown alias_add alias_rows alias_nth fst_conv snd_conv simp_thms)


text \<open>
  In every other case the claim holds: in a store the program can produce, a successful
  \<open>add_train\<close> of a train number that no known train matches up to letter case
  leaves that train with exactly the seeded inventory.
\<close>

lemma select_train_known:
  "select_train ts tn \<noteq> None \<Longrightarrow> \<exists>r\<in>set ts. train_number r = tn"
  by (induction ts) (auto simp: select_train_def split: if_splits)

lemma owned_ensure:
  assumes o: "owned d" and e: "ensure_seat_table d tn 50 = Inr d'"
  shows "owned d'"
proof -
  have d': "d' = d\<lparr>seat_tables := (seat_tables d)
            (table_key (''seats_'' @ tn) \<mapsto>
               (if seat_rows d tn = [] then seed_rows 50 else seat_rows d tn))\<rparr>"
    by (rule ensure_Inr(2) [OF e])
  have same: "seat_rows d tn \<noteq> [] \<Longrightarrow>
              seat_tables d (table_key (''seats_'' @ tn)) = Some (seat_rows d tn)"
    by (auto simp: seat_rows_def split: option.splits)
  show ?thesis
    unfolding owned_def
  proof (intro allI impI)
    fix k rows
    assume t: "seat_tables d' k = Some rows"
    show "rows = seed_rows 50 \<or>
          (\<exists>r\<in>set (trains d'). table_key (''seats_'' @ train_number r) = k)"
    proof (cases "k = table_key (''seats_'' @ tn)")
      case True
      show ?thesis
      proof (cases "seat_rows d tn = []")
        case True
        then have "rows = seed_rows 50" using t \<open>k = table_key (''seats_'' @ tn)\<close> d' by simp
        then show ?thesis by simp
      next
        case False
        then have "rows = seat_rows d tn" using t \<open>k = table_key (''seats_'' @ tn)\<close> d' by simp
        then have "seat_tables d k = Some rows"
          using same [OF False] \<open>k = table_key (''seats_'' @ tn)\<close> by simp
        then show ?thesis using o d' by (auto simp: owned_def)
      qed
    next
      case False
      then have "seat_tables d k = Some rows" using t d' by simp
      then show ?thesis using o d' by (auto simp: owned_def)
    qed
  qed
qed

lemma owned_more_trains:
  "owned d \<Longrightarrow> set (trains d) \<subseteq> set ts \<Longrightarrow> owned (d\<lparr>trains := ts\<rparr>)"
  unfolding owned_def by (simp, blast)

lemma owned_update_known:
  assumes o: "owned d" and k: "select_train (trains d) tn \<noteq> None"
  shows "owned (d\<lparr>seat_tables := (seat_tables d)(table_key (''seats_'' @ tn) \<mapsto> rows)\<rparr>)"
proof -
  from select_train_known [OF k] obtain r where "r \<in> set (trains d)" "train_number r = tn"
    by blast
  then show ?thesis using o unfolding owned_def by (simp, blast)
qed

lemma owned_delete:
  assumes o: "owned d"
  shows "owned (d\<lparr>seat_tables := (seat_tables d)(table_key (''seats_'' @ tn) := None),
                  trains := filter (\<lambda>r. train_number r \<noteq> tn) (trains d)\<rparr>)"
  unfolding owned_def
proof (intro allI impI)
  fix k rows
  assume t: "seat_tables (d\<lparr>seat_tables := (seat_tables d)(table_key (''seats_'' @ tn) := None),
                  trains := filter (\<lambda>r. train_number r \<noteq> tn) (trains d)\<rparr>) k = Some rows"
  then have ne: "k \<noteq> table_key (''seats_'' @ tn)" and t': "seat_tables d k = Some rows"
    by (auto split: if_splits)
  from o t' have "rows = seed_rows 50 \<or>
      (\<exists>r\<in>set (trains d). table_key (''seats_'' @ train_number r) = k)"
    by (simp add: owned_def)
  then show "rows = seed_rows 50 \<or>
      (\<exists>r\<in>set (trains (d\<lparr>seat_tables := (seat_tables d)(table_key (''seats_'' @ tn) := None),
                  trains := filter (\<lambda>r. train_number r \<noteq> tn) (trains d)\<rparr>)).
          table_key (''seats_'' @ train_number r) = k)"
    using ne by auto
qed

lemma owned_add_train:
  assumes o: "owned d"
  shows "owned (snd (add_train d tn nm dt start end))"
proof -
  let ?d1 = "d\<lparr>trains := trains d @
          [\<lparr>train_number = tn, train_name = nm, departure_date = departure_date_str dt,
            starting_destination = start, ending_destination = end\<rparr>]\<rparr>"
  have o1: "owned ?d1" using o by (rule owned_more_trains) auto
  from add_train_store [of d tn nm dt start "end"] show ?thesis
    using o o1 owned_ensure [of ?d1 tn "snd (add_train d tn nm dt start end)"] by auto
qed

lemma delete_train_store:
  "snd (delete_train d tn dt) = d \<or>
   snd (delete_train d tn dt) =
     d\<lparr>seat_tables := (seat_tables d)(table_key (''seats_'' @ tn) := None),
        trains := filter (\<lambda>r. train_number r \<noteq> tn) (trains d)\<rparr>"
  by (cases "fullmatch_ident tn")
     (auto simp: delete_train_def seat_table_name_safe seat_table_name_unsafe split: option.splits)

lemma owned_delete_train: "owned d \<Longrightarrow> owned (snd (delete_train d tn dt))"
  using delete_train_store [of d tn dt] owned_delete [of d tn] by auto

lemma owned_book_ticket:
  assumes o: "owned d"
  shows "owned (snd (book_ticket d tn nm age gender st))"
proof (cases "select_train (trains d) tn = None")
  case True
  then show ?thesis using o by (simp add: book_ticket_unknown)
next
  case known: False
  show ?thesis
  proof (cases "fullmatch_ident tn")
    case False
    then show ?thesis using o known by (simp add: book_ticket_unsafe)
  next
    case True
    then obtain d1 where e: "ensure_seat_table d tn 50 = Inr d1"
      by (simp add: ensure_safe)
    have o1: "owned d1" using o e by (rule owned_ensure)
    have k1: "select_train (trains d1) tn \<noteq> None"
      using known ensure_frame(1) [OF e] by simp
    have "owned (d1\<lparr>seat_tables := (seat_tables d1)
                 (table_key (''seats_'' @ tn) \<mapsto> book_rows (seat_rows d1 tn) n (strip nm) age gender)\<rparr>)" for n
      using o1 k1 by (rule owned_update_known)
    then show ?thesis
      using o1 by (simp add: book_ticket_known [OF known e] split: option.splits)
  qed
qed

lemma cancel_tickets_store_known:
  "snd (cancel_tickets d tn n) = d \<or>
   (\<exists>rows. select_train (trains d) tn \<noteq> None \<and>
      snd (cancel_tickets d tn n) =
        d\<lparr>seat_tables := (seat_tables d)(table_key (''seats_'' @ tn) \<mapsto> rows)\<rparr>)"
  by (cases "fullmatch_ident tn")
     (auto simp: cancel_tickets_def seat_table_name_safe seat_table_name_unsafe
        split: option.splits)

lemma owned_cancel_tickets: "owned d \<Longrightarrow> owned (snd (cancel_tickets d tn n))"
  using cancel_tickets_store_known [of d tn n] owned_update_known [of d tn] by auto

lemma owned_init: "owned init_db"
  by (simp add: owned_def init_db_def)

lemma reachable_owned: "reachable d \<Longrightarrow> owned d"
proof (induction rule: reachable.induct)
  case new
  show ?case by (rule owned_init)
next
  case (added d tn nm dt start "end")
  then show ?case by (simp add: owned_add_train)
next
  case (deleted d tn dt)
  then show ?case by (simp add: owned_delete_train)
next
  case (booked d tn nm age gender st)
  then show ?case by (simp add: owned_book_ticket)
next
  case (cancelled d tn n)
  then show ?case by (simp add: owned_cancel_tickets)
next
  case (viewed d tn d')
  then show ?case using owned_ensure by blast
qed

lemma add_train_fresh_inventory:
  assumes r: "reachable d"
    and ok: "add_train d tn nm dt start end = (Inr (), d')"
    and noalias: "\<forall>r\<in>set (trains d).
        table_key (''seats_'' @ train_number r) \<noteq> table_key (''seats_'' @ tn)"
  shows "seat_rows d' tn = seed_rows 50"
proof -
  let ?row = "\<lparr>train_number = tn, train_name = nm, departure_date = departure_date_str dt,
                 starting_destination = start, ending_destination = end\<rparr>"
  let ?d1 = "d\<lparr>trains := trains d @ [?row]\<rparr>"
  note e = add_train_Inr(4) [OF ok]
  have "seat_rows d tn = [] \<or> seat_rows d tn = seed_rows 50"
    using reachable_owned [OF r] noalias
    by (auto simp: owned_def seat_rows_def split: option.splits)
  moreover have "seat_rows ?d1 tn = seat_rows d tn" by (simp add: seat_rows_def)
  ultimately show ?thesis
    using ensure_frame(3) [OF e] by auto
qed

end
